theory Spec2Isabelle
  imports Main "HOL-Library.Word"
begin

section \<open>The notification de-duplication cache of calendarbot.go\<close>

text \<open>
  The embedding covers \<^verbatim>\<open>memoryCache\<close> with its methods \<^verbatim>\<open>Add\<close> and \<^verbatim>\<open>Get\<close>, the error
  type \<^verbatim>\<open>cacheMissError\<close>, the interface \<^verbatim>\<open>cacheError\<close> and the function \<^verbatim>\<open>IsCacheMiss\<close>.

  Conventions of the embedding:
  \<^item> a \<^verbatim>\<open>time.Time\<close> is a point of an integer time line, counted in nanoseconds; a
    \<^verbatim>\<open>time.Duration\<close> is Go's \<^verbatim>\<open>int64\<close> count of nanoseconds. The package \<^verbatim>\<open>time\<close> is not
    part of the repository: \<^verbatim>\<open>Before\<close> is taken as the strict order of the time line and
    \<^verbatim>\<open>Time.Add\<close> as exact addition of the signed duration;
  \<^item> every method reads \<^verbatim>\<open>time.Now()\<close> at most once on each of its paths; that reading is
    the parameter \<open>now\<close> of the method;
  \<^item> a method of \<^verbatim>\<open>*memoryCache\<close> takes the cache and returns the cache it leaves behind
    together with its Go results; the mutex is held for the whole call and is left out;
  \<^item> a Go value of interface type that may be \<^verbatim>\<open>nil\<close> is an \<open>option\<close>, with \<open>None\<close> for
    \<^verbatim>\<open>nil\<close>;
  \<^item> two calls in a row read the clock twice, and nothing in the code makes the second
    reading later than the first: a call that follows another at once may read the same
    instant.
\<close>

subsection \<open>Time\<close>

type_synonym Time = int

type_synonym Duration = "64 word"

definition Before :: "Time \<Rightarrow> Time \<Rightarrow> bool" where
  "Before t u = (t < u)"

definition Time_Add :: "Time \<Rightarrow> Duration \<Rightarrow> Time" where
  "Time_Add t d = t + sint d"

subsection \<open>Error values and their method sets\<close>

text \<open>
  An \<^verbatim>\<open>error\<close> is a value of some dynamic type. Three kinds of dynamic type occur:
  \<^item> \<open>cacheMissError\<close>, the struct value \<^verbatim>\<open>cacheMissError{}\<close>;
  \<^item> \<open>fundamental msg\<close>, what \<^verbatim>\<open>errors.New(msg)\<close> of \<^verbatim>\<open>github.com/pkg/errors\<close> returns (the
    recorded call stack is left out); its methods are \<^verbatim>\<open>Error\<close> and \<^verbatim>\<open>Format\<close>;
  \<^item> \<open>foreign msg cm\<close>, an error of any other dynamic type, such as a failure of another
    \<^verbatim>\<open>EventCache\<close> backend: \<open>msg\<close> is its \<^verbatim>\<open>Error()\<close> text, and \<open>cm\<close> is \<open>Some b\<close> when
    the type declares a method \<^verbatim>\<open>CacheMiss() bool\<close> that returns \<open>b\<close>, \<open>None\<close> when it
    declares none.
\<close>

datatype error = cacheMissError | fundamental string | foreign string "bool option"

text \<open>
  \<open>bool_method e name\<close> looks the method \<open>name\<close> of signature \<^verbatim>\<open>func() bool\<close> up in the
  method set of the dynamic type of \<open>e\<close> and calls it; \<open>None\<close> says that the type has no
  such method. \<^verbatim>\<open>cacheMissError\<close> declares \<^verbatim>\<open>IsCacheMiss() bool\<close>, returning \<^verbatim>\<open>true\<close>, and
  \<^verbatim>\<open>Error() string\<close>.
\<close>

fun bool_method :: "error \<Rightarrow> string \<Rightarrow> bool option" where
  "bool_method cacheMissError name = (if name = ''IsCacheMiss'' then Some True else None)"
| "bool_method (fundamental msg) name = None"
| "bool_method (foreign msg cm) name = (if name = ''CacheMiss'' then cm else None)"

fun Error :: "error \<Rightarrow> string" where
  "Error cacheMissError = ''cache miss''"
| "Error (fundamental msg) = msg"
| "Error (foreign msg cm) = msg"

definition errors_New :: "string \<Rightarrow> error" where
  "errors_New msg = fundamental msg"

text \<open>
  The interface \<^verbatim>\<open>cacheError\<close> has the single method \<^verbatim>\<open>CacheMiss() bool\<close>: the type
  assertion \<^verbatim>\<open>err.(cacheError)\<close> succeeds when the dynamic type of \<open>err\<close> has that method.
\<close>

definition implements_cacheError :: "error \<Rightarrow> bool" where
  "implements_cacheError e = (bool_method e ''CacheMiss'' \<noteq> None)"

definition IsCacheMiss :: "error option \<Rightarrow> bool" where
  "IsCacheMiss err =
     (case err of
        None \<Rightarrow> False
      | Some e \<Rightarrow>
          (if implements_cacheError e
           then (case bool_method e ''CacheMiss'' of Some b \<Rightarrow> b | None \<Rightarrow> False)
           else False))"

subsection \<open>The cache\<close>

record cacheEntry =
  Value :: "8 word list"
  Expires :: Time

record memoryCache =
  data :: "string \<rightharpoonup> cacheEntry"

definition newMemoryCache :: memoryCache where
  "newMemoryCache = \<lparr>data = Map.empty\<rparr>"

text \<open>
  \<^verbatim>\<open>Add\<close> returns the cache it leaves and its \<^verbatim>\<open>error\<close> result. When the key is present
  the entry is deleted if it has expired, and the call returns the error
  \<^verbatim>\<open>errors.New("entry exists")\<close> in both cases.
\<close>

definition Add :: "memoryCache \<Rightarrow> Time \<Rightarrow> string \<Rightarrow> 8 word list \<Rightarrow> Duration
    \<Rightarrow> memoryCache \<times> error option" where
  "Add c now key val expires =
     (case data c key of
        Some e \<Rightarrow>
          ((if Before (Expires e) now then c\<lparr>data := (data c)(key := None)\<rparr> else c),
           Some (errors_New ''entry exists''))
      | None \<Rightarrow>
          (c\<lparr>data := (data c)(key \<mapsto> \<lparr>Value = val, Expires = Time_Add now expires\<rparr>)\<rparr>,
           None))"

text \<open>
  \<^verbatim>\<open>Get\<close> returns the cache it leaves and its two Go results: the \<^verbatim>\<open>interface{}\<close> value
  (\<^verbatim>\<open>nil\<close> or a \<^verbatim>\<open>cacheEntry\<close>) and the \<^verbatim>\<open>error\<close>.
\<close>

definition Get :: "memoryCache \<Rightarrow> Time \<Rightarrow> string
    \<Rightarrow> memoryCache \<times> cacheEntry option \<times> error option" where
  "Get c now key =
     (case data c key of
        None \<Rightarrow> (c, None, Some cacheMissError)
      | Some e \<Rightarrow>
          (if Before (Expires e) now
           then (c\<lparr>data := (data c)(key := None)\<rparr>, None, Some cacheMissError)
           else (c, Some e, None)))"

section \<open>Shared facts\<close>

lemma Add_absent:
  "data c key = None \<Longrightarrow>
   Add c now key val expires =
     (c\<lparr>data := (data c)(key \<mapsto> \<lparr>Value = val, Expires = Time_Add now expires\<rparr>)\<rparr>, None)"
  by (simp add: Add_def)

lemma Add_expired:
  "data c key = Some e \<Longrightarrow> Before (Expires e) now \<Longrightarrow>
   Add c now key val expires =
     (c\<lparr>data := (data c)(key := None)\<rparr>, Some (errors_New ''entry exists''))"
  by (simp add: Add_def)

lemma Add_unexpired:
  "data c key = Some e \<Longrightarrow> \<not> Before (Expires e) now \<Longrightarrow>
   Add c now key val expires = (c, Some (errors_New ''entry exists''))"
  by (simp add: Add_def)

lemma Get_absent:
  "data c key = None \<Longrightarrow> Get c now key = (c, None, Some cacheMissError)"
  by (simp add: Get_def)

lemma Get_expired:
  "data c key = Some e \<Longrightarrow> Before (Expires e) now \<Longrightarrow>
   Get c now key = (c\<lparr>data := (data c)(key := None)\<rparr>, None, Some cacheMissError)"
  by (simp add: Get_def)

lemma Get_unexpired:
  "data c key = Some e \<Longrightarrow> \<not> Before (Expires e) now \<Longrightarrow>
   Get c now key = (c, Some e, None)"
  by (simp add: Get_def)

section \<open>The claims\<close>

text \<open>
  C1. The claim: every error that \<^verbatim>\<open>Get\<close> returns for an absent or expired key is
  recognised by \<^verbatim>\<open>IsCacheMiss\<close>. The code does not do so: \<^verbatim>\<open>cacheMissError\<close> declares the
  method \<^verbatim>\<open>IsCacheMiss\<close>, the interface \<^verbatim>\<open>cacheError\<close> asks for \<^verbatim>\<open>CacheMiss\<close>, the type
  assertion fails and \<^verbatim>\<open>IsCacheMiss\<close> answers \<^verbatim>\<open>false\<close>. Here \<^verbatim>\<open>Get\<close> is run on the key
  \<^verbatim>\<open>evt1\<close> of a new cache.
\<close>

theorem C1_IsCacheMiss_rejects_Get_miss:
  "snd (snd (Get newMemoryCache 0 ''evt1'')) = Some cacheMissError \<and>
   IsCacheMiss (snd (snd (Get newMemoryCache 0 ''evt1''))) = False"
  by (simp add: Get_def newMemoryCache_def IsCacheMiss_def implements_cacheError_def)

text \<open>
  C2. For a key \<open>k\<close> that the cache does not hold, any value \<open>v\<close> and any \<open>ttl > 0\<close>,
  \<^verbatim>\<open>Add(k, v, ttl)\<close> at the clock reading \<open>now\<close> returns \<^verbatim>\<open>nil\<close> and stores the entry with
  value \<open>v\<close> and expiry \<open>now + ttl\<close>. A \<^verbatim>\<open>Get(k)\<close> that follows at once, reading the same
  instant \<open>now\<close> or any instant \<open>now'\<close> up to \<open>now + ttl\<close>, returns that entry with a
  \<^verbatim>\<open>nil\<close> error and leaves the cache as it is.
\<close>

theorem C2_Add_absent_then_Get:
  assumes "data c k = None" and "0 < sint ttl" and "now' \<le> now + sint ttl"
  shows "Add c now k v ttl =
           (c\<lparr>data := (data c)(k \<mapsto> \<lparr>Value = v, Expires = now + sint ttl\<rparr>)\<rparr>, None) \<and>
         Get (fst (Add c now k v ttl)) now k =
           (fst (Add c now k v ttl), Some \<lparr>Value = v, Expires = now + sint ttl\<rparr>, None) \<and>
         Get (fst (Add c now k v ttl)) now' k =
           (fst (Add c now k v ttl), Some \<lparr>Value = v, Expires = now + sint ttl\<rparr>, None)"
  using assms by (simp add: Add_absent Get_def Before_def Time_Add_def)

theorem C2_witness:
  "data newMemoryCache ''evt1'' = None \<and> 0 < sint (900000000000 :: 64 word) \<and>
   (5::int) \<le> 0 + sint (900000000000 :: 64 word) \<and>
   Add newMemoryCache 0 ''evt1'' [1] 900000000000 =
     (\<lparr>data = [''evt1'' \<mapsto> \<lparr>Value = [1], Expires = 900000000000\<rparr>]\<rparr>, None) \<and>
   Get (fst (Add newMemoryCache 0 ''evt1'' [1] 900000000000)) 5 ''evt1'' =
     (\<lparr>data = [''evt1'' \<mapsto> \<lparr>Value = [1], Expires = 900000000000\<rparr>]\<rparr>,
      Some \<lparr>Value = [1], Expires = 900000000000\<rparr>, None)"
proof -
  have h1: "data newMemoryCache ''evt1'' = None" by (simp add: newMemoryCache_def)
  have h2: "0 < sint (900000000000 :: 64 word)" by simp
  have h3: "(5::int) \<le> 0 + sint (900000000000 :: 64 word)" by simp
  show ?thesis
    using h1 h2 h3 C2_Add_absent_then_Get [OF h1 h2 h3, of "[1]"]
    by (simp add: newMemoryCache_def Add_def Get_def Before_def Time_Add_def)
qed

text \<open>
  C3. For a key \<open>k\<close> that holds an entry \<open>e\<close> not expired at the clock reading \<open>now\<close>,
  \<^verbatim>\<open>Add(k, v2, ttl2)\<close> returns the error \<^verbatim>\<open>entry exists\<close> and leaves the whole cache as it
  was, so \<open>k\<close> still holds \<open>e\<close>; a \<^verbatim>\<open>Get(k)\<close> at \<open>now\<close>, or at any reading \<open>now'\<close> at which
  \<open>e\<close> has not expired, returns \<open>e\<close> itself.
\<close>

theorem C3_Add_unexpired_entry_exists:
  assumes "data c k = Some e" and "\<not> Before (Expires e) now" and "\<not> Before (Expires e) now'"
  shows "Add c now k v2 ttl2 = (c, Some (errors_New ''entry exists'')) \<and>
         data (fst (Add c now k v2 ttl2)) k = Some e \<and>
         Get (fst (Add c now k v2 ttl2)) now k = (c, Some e, None) \<and>
         Get (fst (Add c now k v2 ttl2)) now' k = (c, Some e, None)"
  using assms by (simp add: Add_unexpired Get_unexpired)

theorem C3_witness:
  "data \<lparr>data = [''evt1'' \<mapsto> \<lparr>Value = [1], Expires = 900000000000\<rparr>]\<rparr> ''evt1''
     = Some \<lparr>Value = [1], Expires = 900000000000\<rparr> \<and>
   \<not> Before (Expires \<lparr>Value = [1], Expires = 900000000000\<rparr>) 5 \<and>
   \<not> Before (Expires \<lparr>Value = [1], Expires = 900000000000\<rparr>) 7 \<and>
   Add \<lparr>data = [''evt1'' \<mapsto> \<lparr>Value = [1], Expires = 900000000000\<rparr>]\<rparr> 5 ''evt1'' [2] 900000000000
     = (\<lparr>data = [''evt1'' \<mapsto> \<lparr>Value = [1], Expires = 900000000000\<rparr>]\<rparr>,
        Some (errors_New ''entry exists'')) \<and>
   Get (fst (Add \<lparr>data = [''evt1'' \<mapsto> \<lparr>Value = [1], Expires = 900000000000\<rparr>]\<rparr> 5 ''evt1'' [2]
          900000000000)) 7 ''evt1''
     = (\<lparr>data = [''evt1'' \<mapsto> \<lparr>Value = [1], Expires = 900000000000\<rparr>]\<rparr>,
        Some \<lparr>Value = [1], Expires = 900000000000\<rparr>, None)"
proof -
  let ?e = "\<lparr>Value = [1], Expires = 900000000000\<rparr>"
  let ?c = "\<lparr>data = [''evt1'' \<mapsto> ?e]\<rparr>"
  have h1: "data ?c ''evt1'' = Some ?e" by simp
  have h2: "\<not> Before (Expires ?e) 5" by (simp add: Before_def)
  have h3: "\<not> Before (Expires ?e) 7" by (simp add: Before_def)
  show ?thesis
    using h1 h2 h3 C3_Add_unexpired_entry_exists [OF h1 h2 h3, of "[2]" 900000000000]
    by (simp add: Add_def Get_def Before_def Time_Add_def)
qed

text \<open>
  C4. For a key \<open>k\<close> whose entry \<open>e\<close> has expired at the clock reading \<open>now\<close>,
  \<^verbatim>\<open>Add(k, v3, ttl3)\<close> deletes the entry, returns the error \<^verbatim>\<open>entry exists\<close> and does not
  insert \<open>v3\<close>: the key is absent afterwards. The next \<^verbatim>\<open>Add(k, v4, ttl4)\<close>, at any clock
  reading \<open>now'\<close>, returns \<^verbatim>\<open>nil\<close> and stores \<open>v4\<close> with expiry \<open>now' + ttl4\<close>.
\<close>

theorem C4_Add_expired_entry:
  assumes "data c k = Some e" and "Before (Expires e) now"
  shows "Add c now k v3 ttl3 =
           (c\<lparr>data := (data c)(k := None)\<rparr>, Some (errors_New ''entry exists'')) \<and>
         data (fst (Add c now k v3 ttl3)) k = None \<and>
         Add (fst (Add c now k v3 ttl3)) now' k v4 ttl4 =
           (c\<lparr>data := (data c)(k \<mapsto> \<lparr>Value = v4, Expires = now' + sint ttl4\<rparr>)\<rparr>, None)"
  using assms by (simp add: Add_expired Add_absent Time_Add_def)

theorem C4_witness:
  "data \<lparr>data = [''evt1'' \<mapsto> \<lparr>Value = [1], Expires = 900000000000\<rparr>]\<rparr> ''evt1''
     = Some \<lparr>Value = [1], Expires = 900000000000\<rparr> \<and>
   Before (Expires \<lparr>Value = [1], Expires = 900000000000\<rparr>) 901000000000 \<and>
   Add \<lparr>data = [''evt1'' \<mapsto> \<lparr>Value = [1], Expires = 900000000000\<rparr>]\<rparr> 901000000000 ''evt1'' [3]
       900000000000
     = (\<lparr>data = Map.empty\<rparr>, Some (errors_New ''entry exists'')) \<and>
   Add (fst (Add \<lparr>data = [''evt1'' \<mapsto> \<lparr>Value = [1], Expires = 900000000000\<rparr>]\<rparr> 901000000000
          ''evt1'' [3] 900000000000)) 901000000000 ''evt1'' [4] 900000000000
     = (\<lparr>data = [''evt1'' \<mapsto> \<lparr>Value = [4], Expires = 1801000000000\<rparr>]\<rparr>, None)"
proof -
  let ?e = "\<lparr>Value = [1], Expires = 900000000000\<rparr>"
  let ?c = "\<lparr>data = [''evt1'' \<mapsto> ?e]\<rparr>"
  have h1: "data ?c ''evt1'' = Some ?e" by simp
  have h2: "Before (Expires ?e) 901000000000" by (simp add: Before_def)
  show ?thesis
    using h1 h2
      C4_Add_expired_entry [OF h1 h2, of "[3]" 900000000000 901000000000 "[4]" 900000000000]
    by (simp add: Add_def Get_def Before_def Time_Add_def)
qed

text \<open>
  C5. \<^verbatim>\<open>Get(k)\<close> on a key \<open>k\<close> that the cache does not hold returns \<^verbatim>\<open>nil\<close> with the error
  \<^verbatim>\<open>cacheMissError{}\<close> and leaves the cache as it is, whatever else the cache holds.
  \<^verbatim>\<open>Get(k')\<close> on a key \<open>k'\<close> whose entry has expired deletes that entry and returns \<^verbatim>\<open>nil\<close>
  with \<^verbatim>\<open>cacheMissError{}\<close>. In both cases the error is not \<^verbatim>\<open>nil\<close>, and on no cache and
  no key \<open>k''\<close> at all does \<^verbatim>\<open>Get\<close> return a \<^verbatim>\<open>nil\<close> value together with a \<^verbatim>\<open>nil\<close> error.
  Each of the three parts stands on its own condition.
\<close>

theorem C5_Get_miss:
  "(data c k = None \<longrightarrow>
      Get c now k = (c, None, Some cacheMissError) \<and> snd (snd (Get c now k)) \<noteq> None) \<and>
   (\<forall>e. data c k' = Some e \<and> Before (Expires e) now \<longrightarrow>
      Get c now k' = (c\<lparr>data := (data c)(k' := None)\<rparr>, None, Some cacheMissError) \<and>
      data (fst (Get c now k')) k' = None \<and>
      snd (snd (Get c now k')) \<noteq> None) \<and>
   snd (Get c now k'') \<noteq> (None, None)"
  by (simp add: Get_absent Get_expired) (simp add: Get_def split: option.split)

theorem C5_witness:
  "data \<lparr>data = [''evt1'' \<mapsto> \<lparr>Value = [1], Expires = 900000000000\<rparr>]\<rparr> ''evt2'' = None \<and>
   data \<lparr>data = [''evt1'' \<mapsto> \<lparr>Value = [1], Expires = 900000000000\<rparr>]\<rparr> ''evt1''
     = Some \<lparr>Value = [1], Expires = 900000000000\<rparr> \<and>
   Before (Expires \<lparr>Value = [1], Expires = 900000000000\<rparr>) 901000000000 \<and>
   Get \<lparr>data = [''evt1'' \<mapsto> \<lparr>Value = [1], Expires = 900000000000\<rparr>]\<rparr> 901000000000 ''evt2''
     = (\<lparr>data = [''evt1'' \<mapsto> \<lparr>Value = [1], Expires = 900000000000\<rparr>]\<rparr>, None,
        Some cacheMissError) \<and>
   Get \<lparr>data = [''evt1'' \<mapsto> \<lparr>Value = [1], Expires = 900000000000\<rparr>]\<rparr> 901000000000 ''evt1''
     = (\<lparr>data = Map.empty\<rparr>, None, Some cacheMissError) \<and>
   data newMemoryCache ''evt1'' = None \<and>
   Get newMemoryCache 0 ''evt1'' = (newMemoryCache, None, Some cacheMissError)"
  using
    C5_Get_miss [of "\<lparr>data = [''evt1'' \<mapsto> \<lparr>Value = [1], Expires = 900000000000\<rparr>]\<rparr>"
      "''evt2''" 901000000000 "''evt1''" "''evt1''"]
    C5_Get_miss [of newMemoryCache "''evt1''" 0 "''evt1''" "''evt1''"]
  by (simp add: newMemoryCache_def Get_def Before_def)

text \<open>
  C6, as the claim states it, fails. The cache holds \<^verbatim>\<open>evt1\<close> with expiry at 900 s, and
  the clock reads 901 s. \<^verbatim>\<open>Get("evt1")\<close> returns \<^verbatim>\<open>cacheMissError{}\<close> and deletes the
  entry, so the \<^verbatim>\<open>Add("evt1", [3], 900s)\<close> that follows finds the key absent and returns
  \<^verbatim>\<open>nil\<close>, not the error \<^verbatim>\<open>entry exists\<close>.
\<close>

theorem C6_counterexample:
  "snd (Get \<lparr>data = [''evt1'' \<mapsto> \<lparr>Value = [1], Expires = 900000000000\<rparr>]\<rparr> 901000000000 ''evt1'')
     = (None, Some cacheMissError) \<and>
   snd (Add (fst (Get \<lparr>data = [''evt1'' \<mapsto> \<lparr>Value = [1], Expires = 900000000000\<rparr>]\<rparr>
                     901000000000 ''evt1''))
            901000000000 ''evt1'' [3] 900000000000)
     = None \<and>
   snd (Add (fst (Get \<lparr>data = [''evt1'' \<mapsto> \<lparr>Value = [1], Expires = 900000000000\<rparr>]\<rparr>
                     901000000000 ''evt1''))
            901000000000 ''evt1'' [3] 900000000000)
     \<noteq> Some (errors_New ''entry exists'')"
  by (simp add: Add_def Get_def Before_def Time_Add_def)

text \<open>
  C6, amended. Once the entry \<open>e\<close> under \<open>k\<close> has expired, \<^verbatim>\<open>Get(k)\<close> returns
  \<^verbatim>\<open>cacheMissError{}\<close> and deletes the entry, and an \<^verbatim>\<open>Add(k, v3, ttl3)\<close> after that
  \<^verbatim>\<open>Get\<close> returns \<^verbatim>\<open>nil\<close> and stores \<open>v3\<close>. The error \<^verbatim>\<open>entry exists\<close> comes only when
  \<^verbatim>\<open>Add(k, v3, ttl3)\<close> is itself the first operation on \<open>k\<close> after the expiry, with no
  \<^verbatim>\<open>Get\<close> in between; the \<^verbatim>\<open>Add\<close> after that one returns \<^verbatim>\<open>nil\<close>.
\<close>

theorem C6_Get_then_Add_after_expiry:
  assumes "data c k = Some e" and "Before (Expires e) now"
  shows "Get c now k = (c\<lparr>data := (data c)(k := None)\<rparr>, None, Some cacheMissError) \<and>
         Add (fst (Get c now k)) now' k v3 ttl3 =
           (c\<lparr>data := (data c)(k \<mapsto> \<lparr>Value = v3, Expires = now' + sint ttl3\<rparr>)\<rparr>, None) \<and>
         snd (Add c now k v3 ttl3) = Some (errors_New ''entry exists'') \<and>
         snd (Add (fst (Add c now k v3 ttl3)) now' k v4 ttl4) = None"
  using assms by (simp add: Get_expired Add_expired Add_absent Time_Add_def)

theorem C6_witness:
  "data \<lparr>data = [''evt1'' \<mapsto> \<lparr>Value = [1], Expires = 900000000000\<rparr>]\<rparr> ''evt1''
     = Some \<lparr>Value = [1], Expires = 900000000000\<rparr> \<and>
   Before (Expires \<lparr>Value = [1], Expires = 900000000000\<rparr>) 901000000000 \<and>
   Get \<lparr>data = [''evt1'' \<mapsto> \<lparr>Value = [1], Expires = 900000000000\<rparr>]\<rparr> 901000000000 ''evt1''
     = (\<lparr>data = Map.empty\<rparr>, None, Some cacheMissError) \<and>
   Add (fst (Get \<lparr>data = [''evt1'' \<mapsto> \<lparr>Value = [1], Expires = 900000000000\<rparr>]\<rparr> 901000000000
          ''evt1'')) 901000000000 ''evt1'' [3] 900000000000
     = (\<lparr>data = [''evt1'' \<mapsto> \<lparr>Value = [3], Expires = 1801000000000\<rparr>]\<rparr>, None)"
proof -
  let ?e = "\<lparr>Value = [1], Expires = 900000000000\<rparr>"
  let ?c = "\<lparr>data = [''evt1'' \<mapsto> ?e]\<rparr>"
  have h1: "data ?c ''evt1'' = Some ?e" by simp
  have h2: "Before (Expires ?e) 901000000000" by (simp add: Before_def)
  show ?thesis
    using h1 h2
      C6_Get_then_Add_after_expiry [OF h1 h2, of 901000000000 "[3]" 900000000000 "[4]" 900000000000]
    by (simp add: Add_def Get_def Before_def Time_Add_def)
qed

text \<open>
  C7. Whenever \<^verbatim>\<open>Get(k)\<close> returns a \<^verbatim>\<open>nil\<close> error, the cache it leaves is the cache it
  found, so that no key has been added, removed or changed; and a \<^verbatim>\<open>nil\<close> error is
  returned only when \<open>k\<close> holds an entry that has not expired, which is the value returned.
\<close>

theorem C7_Get_success_frame:
  assumes "snd (snd (Get c now k)) = None"
  shows "fst (Get c now k) = c \<and>
         (\<exists>e. data c k = Some e \<and> \<not> Before (Expires e) now \<and> fst (snd (Get c now k)) = Some e)"
  using assms by (auto simp: Get_def split: option.splits if_splits)

theorem C7_witness:
  "snd (snd (Get \<lparr>data = [''evt1'' \<mapsto> \<lparr>Value = [1], Expires = 900000000000\<rparr>]\<rparr> 5 ''evt1'')) = None \<and>
   fst (Get \<lparr>data = [''evt1'' \<mapsto> \<lparr>Value = [1], Expires = 900000000000\<rparr>]\<rparr> 5 ''evt1'')
     = \<lparr>data = [''evt1'' \<mapsto> \<lparr>Value = [1], Expires = 900000000000\<rparr>]\<rparr>"
proof -
  let ?c = "\<lparr>data = [''evt1'' \<mapsto> \<lparr>Value = [1], Expires = 900000000000\<rparr>]\<rparr>"
  have h: "snd (snd (Get ?c 5 ''evt1'')) = None" by (simp add: Get_def Before_def)
  show ?thesis using h C7_Get_success_frame [OF h] by simp
qed

text \<open>
  C8, as the claim states it for every \<^verbatim>\<open>Add\<close>, fails. \<^verbatim>\<open>Add("evt1", [1], -1ns)\<close> on a
  new cache at the clock reading 0 stores an entry whose expiry \<open>- 1\<close> is before that
  reading: after the operation the key is present with an entry that has expired.
\<close>

theorem C8_counterexample:
  "data (fst (Add newMemoryCache 0 ''evt1'' [1] (- 1))) ''evt1''
     = Some \<lparr>Value = [1], Expires = - 1\<rparr> \<and>
   Before (Expires \<lparr>Value = [1], Expires = - 1\<rparr>) 0"
  by (simp add: Add_def newMemoryCache_def Before_def Time_Add_def)

text \<open>
  C8, amended. After every \<^verbatim>\<open>Get(k)\<close>, and after every \<^verbatim>\<open>Add(k, v, ttl)\<close> whose key is
  already present or whose \<open>ttl\<close> is not negative, the key \<open>k\<close> is absent or holds an entry
  that has not expired at the clock reading \<open>now\<close> of the operation. An entry that \<^verbatim>\<open>Get\<close>
  or \<^verbatim>\<open>Add\<close> finds expired under \<open>k\<close> is deleted by that same operation.
\<close>

theorem C8_lazy_expiry:
  "(data (fst (Get c now k)) k = None \<or>
      (\<exists>e. data (fst (Get c now k)) k = Some e \<and> \<not> Before (Expires e) now)) \<and>
   (data c k \<noteq> None \<or> 0 \<le> sint ttl \<longrightarrow>
      data (fst (Add c now k v ttl)) k = None \<or>
      (\<exists>e. data (fst (Add c now k v ttl)) k = Some e \<and> \<not> Before (Expires e) now)) \<and>
   (\<forall>e. data c k = Some e \<and> Before (Expires e) now \<longrightarrow>
      data (fst (Get c now k)) k = None \<and> data (fst (Add c now k v ttl)) k = None)"
  by (auto simp: Get_def Add_def Before_def Time_Add_def split: option.splits)

theorem C8_witness:
  "0 \<le> sint (900000000000 :: 64 word) \<and>
   data \<lparr>data = [''evt1'' \<mapsto> \<lparr>Value = [1], Expires = 900000000000\<rparr>]\<rparr> ''evt1''
     = Some \<lparr>Value = [1], Expires = 900000000000\<rparr> \<and>
   Before (Expires \<lparr>Value = [1], Expires = 900000000000\<rparr>) 901000000000 \<and>
   data (fst (Get \<lparr>data = [''evt1'' \<mapsto> \<lparr>Value = [1], Expires = 900000000000\<rparr>]\<rparr> 901000000000
      ''evt1'')) ''evt1'' = None \<and>
   data (fst (Add \<lparr>data = [''evt1'' \<mapsto> \<lparr>Value = [1], Expires = 900000000000\<rparr>]\<rparr> 901000000000
      ''evt1'' [2] 900000000000)) ''evt1'' = None"
  using C8_lazy_expiry [of "\<lparr>data = [''evt1'' \<mapsto> \<lparr>Value = [1], Expires = 900000000000\<rparr>]\<rparr>"
      901000000000 "''evt1''" 900000000000 "[2]"]
  by (simp add: Before_def)

text \<open>
  C9. \<^verbatim>\<open>IsCacheMiss\<close> returns \<^verbatim>\<open>false\<close> for every error whose dynamic type does not have
  the method \<^verbatim>\<open>CacheMiss() bool\<close>: in particular for an error of a foreign type without
  that method (a lock or storage failure of another backend), for the error
  \<^verbatim>\<open>entry exists\<close>, and for whatever \<^verbatim>\<open>Add\<close> returns.
\<close>

theorem C9_IsCacheMiss_false:
  assumes "\<not> implements_cacheError e"
  shows "IsCacheMiss (Some e) = False \<and>
         IsCacheMiss (Some (foreign msg None)) = False \<and>
         IsCacheMiss (Some (errors_New ''entry exists'')) = False \<and>
         IsCacheMiss (snd (Add c now k v ttl)) = False"
  using assms
  by (simp add: IsCacheMiss_def implements_cacheError_def errors_New_def Add_def
        split: option.split)

theorem C9_witness:
  "\<not> implements_cacheError (foreign ''lock failed'' None) \<and>
   IsCacheMiss (Some (foreign ''lock failed'' None)) = False"
proof -
  have h: "\<not> implements_cacheError (foreign ''lock failed'' None)"
    by (simp add: implements_cacheError_def)
  show ?thesis using h C9_IsCacheMiss_false [OF h] by simp
qed

text \<open>
  C10, as the claim states it for \<open>ttl \<le> 0\<close>, fails at \<open>ttl = 0\<close>. \<^verbatim>\<open>Add("evt1", [1], 0)\<close>
  on a new cache at the clock reading 0 returns \<^verbatim>\<open>nil\<close> and stores the expiry 0, which
  is not before the reading 0: \<^verbatim>\<open>Before\<close> is strict. A \<^verbatim>\<open>Get("evt1")\<close> that follows at
  once, while the clock still reads 0 (a coarse or an injected clock), returns the entry
  with a \<^verbatim>\<open>nil\<close> error and keeps it in the cache.
\<close>

theorem C10_counterexample:
  "snd (Add newMemoryCache 0 ''evt1'' [1] 0) = None \<and>
   \<not> Before (Expires \<lparr>Value = [1], Expires = 0\<rparr>) 0 \<and>
   Get (fst (Add newMemoryCache 0 ''evt1'' [1] 0)) 0 ''evt1''
     = (\<lparr>data = [''evt1'' \<mapsto> \<lparr>Value = [1], Expires = 0\<rparr>]\<rparr>,
        Some \<lparr>Value = [1], Expires = 0\<rparr>, None)"
  by (simp add: Add_def Get_def newMemoryCache_def Before_def Time_Add_def)

text \<open>
  C10, amended. \<^verbatim>\<open>Add\<close> validates nothing: on an absent key it returns \<^verbatim>\<open>nil\<close> and stores
  the entry with expiry \<open>now + ttl\<close>, for the empty key as for any other and for every
  \<open>ttl\<close>, also a non-positive one. With \<open>ttl < 0\<close> the stored expiry is before the
  reading \<open>now\<close> of the \<^verbatim>\<open>Add\<close>, and a \<^verbatim>\<open>Get\<close> at that same reading returns
  \<^verbatim>\<open>cacheMissError{}\<close> and deletes the entry. With \<open>ttl \<le> 0\<close>, a \<^verbatim>\<open>Get\<close> whose reading
  \<open>now'\<close> is after \<open>now + ttl\<close> returns \<^verbatim>\<open>cacheMissError{}\<close> and deletes the entry. With
  \<open>ttl = 0\<close> the stored expiry is \<open>now\<close> itself, and a \<^verbatim>\<open>Get\<close> whose reading \<open>now''\<close> is
  not after \<open>now\<close>, the same reading among them, returns the entry with a \<^verbatim>\<open>nil\<close> error
  and keeps it. Each part stands on its own condition.
\<close>

theorem C10_Add_no_validation:
  "(data c [] = None \<longrightarrow>
      Add c now [] v ttl =
        (c\<lparr>data := (data c)([] \<mapsto> \<lparr>Value = v, Expires = now + sint ttl\<rparr>)\<rparr>, None)) \<and>
   (data c k = None \<longrightarrow>
      Add c now k v ttl =
        (c\<lparr>data := (data c)(k \<mapsto> \<lparr>Value = v, Expires = now + sint ttl\<rparr>)\<rparr>, None)) \<and>
   (data c k = None \<and> sint ttl < 0 \<longrightarrow>
      Before (now + sint ttl) now \<and>
      snd (Get (fst (Add c now k v ttl)) now k) = (None, Some cacheMissError) \<and>
      data (fst (Get (fst (Add c now k v ttl)) now k)) k = None) \<and>
   (data c k = None \<and> sint ttl \<le> 0 \<and> now + sint ttl < now' \<longrightarrow>
      snd (Get (fst (Add c now k v ttl)) now' k) = (None, Some cacheMissError) \<and>
      data (fst (Get (fst (Add c now k v ttl)) now' k)) k = None) \<and>
   (data c k = None \<and> sint ttl = 0 \<and> now'' \<le> now \<longrightarrow>
      Get (fst (Add c now k v ttl)) now'' k =
        (fst (Add c now k v ttl), Some \<lparr>Value = v, Expires = now\<rparr>, None))"
  by (simp add: Add_absent Get_def Before_def Time_Add_def)

theorem C10_witness:
  "data newMemoryCache [] = None \<and> sint (- 1 :: 64 word) < 0 \<and>
   sint (- 1 :: 64 word) \<le> 0 \<and> (0::int) + sint (- 1 :: 64 word) < 0 \<and>
   Add newMemoryCache 0 [] [1] (- 1) = (\<lparr>data = [[] \<mapsto> \<lparr>Value = [1], Expires = - 1\<rparr>]\<rparr>, None) \<and>
   snd (Get (fst (Add newMemoryCache 0 [] [1] (- 1))) 0 []) = (None, Some cacheMissError) \<and>
   data (fst (Get (fst (Add newMemoryCache 0 [] [1] (- 1))) 0 [])) [] = None \<and>
   data newMemoryCache ''evt1'' = None \<and> sint (0 :: 64 word) = 0 \<and> (0::int) \<le> 0 \<and>
   Get (fst (Add newMemoryCache 0 ''evt1'' [1] 0)) 0 ''evt1''
     = (\<lparr>data = [''evt1'' \<mapsto> \<lparr>Value = [1], Expires = 0\<rparr>]\<rparr>,
        Some \<lparr>Value = [1], Expires = 0\<rparr>, None)"
  using
    C10_Add_no_validation [of newMemoryCache 0 "[1]" "- 1" "[]" 0 0]
    C10_Add_no_validation [of newMemoryCache 0 "[1]" 0 "''evt1''" 1 0]
  by (simp add: newMemoryCache_def Add_def Get_def Before_def Time_Add_def)

end
